theory Spec2Isabelle
  imports Complex_Main
begin

unbundle bit_operations_syntax

section \<open>Real-time detection of dangerous objects: the script \<open>deteccion_tiempo_real.py\<close>\<close>

text \<open>
  The script is one module-level program: a start-up part (the danger-label table, the
  class ids of the dangerous classes, the camera), a \<open>while True\<close> loop over camera
  frames inside \<open>try\<close>, and a \<open>finally\<close> block that prints the session summary.

  Strings are byte lists: a Python string is modelled by its UTF-8 encoding, which is
  injective, so that equality of strings (all the script ever asks of them) is preserved.
  Python's floats (confidences, clock readings, the FPS value) are modelled by the
  rationals they denote; the one place where the script computes with floats (the FPS
  value) rounds to binary64 as the machine does.
\<close>

subsection \<open>Static configuration\<close>

text \<open>The dict literal \<open>OBJETOS_PELIGROSOS\<close>, in the order it is written.\<close>

definition OBJETOS_PELIGROSOS :: "(string \<times> string) list" where
  "OBJETOS_PELIGROSOS =
    [(''bottle'', [CHR 0xF0, CHR 0x9F, CHR 0x8D, CHR 0xBE] @ '' BOTELLA''),
     (''knife'', [CHR 0xF0, CHR 0x9F, CHR 0x94, CHR 0xAA] @ '' CUCHILLO''),
     (''baseball bat'', [CHR 0xE2, CHR 0x9A, CHR 0xBE] @ '' BATE''),
     (''scissors'', [CHR 0xE2, CHR 0x9C, CHR 0x82, CHR 0xEF, CHR 0xB8, CHR 0x8F] @ '' TIJERAS''),
     (''fork'', [CHR 0xF0, CHR 0x9F, CHR 0x8D, CHR 0xB4] @ '' TENEDOR''),
     (''spoon'', [CHR 0xF0, CHR 0x9F, CHR 0xA5, CHR 0x84] @ '' CUCHARA'')]"

text \<open>\<open>d.keys()\<close> and \<open>d[k]\<close> of a dict held as an association list; a missing key raises.\<close>

datatype error = KeyError | NameError | ZeroDivisionError

definition keys :: "('k \<times> 'v) list \<Rightarrow> 'k list" where
  "keys d = map fst d"

definition getitem :: "('k \<times> 'v) list \<Rightarrow> 'k \<Rightarrow> error + 'v" where
  "getitem d k = (case map_of d k of None \<Rightarrow> Inl KeyError | Some v \<Rightarrow> Inr v)"

text \<open>The threshold handed to the detector: the literal \<open>conf=0.3\<close> of the predict call.\<close>

definition conf_umbral :: rat where
  "conf_umbral = 3 / 10"

subsection \<open>Start-up: the ids of the dangerous classes\<close>

text \<open>
  \<open>modelo.names\<close> is the detector's class table, a dict from class id to class name; it
  is held as the list of its items in iteration order. The loop appends the id of every
  class whose name is a key of \<open>OBJETOS_PELIGROSOS\<close> and prints one line for it.
\<close>

definition detectando :: "string \<Rightarrow> string" where
  "detectando a = [CHR 0xE2, CHR 0x9C, CHR 0x93] @ '' Detectando: '' @ a"

fun clases_peligrosas_loop ::
  "(int \<times> string) list \<Rightarrow> int list \<times> string list \<Rightarrow> error + (int list \<times> string list)" where
  "clases_peligrosas_loop [] acc = Inr acc"
| "clases_peligrosas_loop ((idx, nombre) # resto) (ids, out) =
     (if nombre \<in> set (keys OBJETOS_PELIGROSOS) then
        (case getitem OBJETOS_PELIGROSOS nombre of
           Inl e \<Rightarrow> Inl e
         | Inr a \<Rightarrow> clases_peligrosas_loop resto (ids @ [idx], out @ [detectando a]))
      else clases_peligrosas_loop resto (ids, out))"

definition clases_peligrosas_ids :: "(int \<times> string) list \<Rightarrow> error + int list" where
  "clases_peligrosas_ids names =
     (case clases_peligrosas_loop names ([], []) of Inl e \<Rightarrow> Inl e | Inr (ids, out) \<Rightarrow> Inr ids)"

subsection \<open>Formatting\<close>

text \<open>
  \<open>str(n)\<close> for an int, the zero-padded fields of \<open>strftime\<close>, and the two float formats
  of the f-strings: \<open>{x:.0%}\<close> (percent, no decimals) and \<open>{x:.1f}\<close> (one decimal). Both
  round to nearest, ties to even, and keep the sign of a negative value that rounds to 0.
\<close>

definition digito :: "nat \<Rightarrow> char" where
  "digito d = ''0123456789'' ! (d mod 10)"

fun str_nat :: "nat \<Rightarrow> string" where
  "str_nat n = (if n < 10 then [digito n] else str_nat (n div 10) @ [digito (n mod 10)])"

declare str_nat.simps [simp del]

definition str_int :: "int \<Rightarrow> string" where
  "str_int i = (if i < 0 then ''-'' @ str_nat (nat (- i)) else str_nat (nat i))"

definition zfill :: "nat \<Rightarrow> string \<Rightarrow> string" where
  "zfill w s = replicate (w - length s) (CHR ''0'') @ s"

definition round_half_even :: "rat \<Rightarrow> int" where
  "round_half_even x =
     (let f = \<lfloor>x\<rfloor>; d = x - of_int f
      in if d < 1 / 2 then f else if 1 / 2 < d then f + 1 else if even f then f else f + 1)"

definition signo :: "rat \<Rightarrow> string" where
  "signo x = (if x < 0 then ''-'' else [])"

definition fmt_pct :: "rat \<Rightarrow> string" where
  "fmt_pct x = signo x @ str_nat (nat (round_half_even (\<bar>x\<bar> * 100))) @ ''%''"

definition fmt_f1 :: "rat \<Rightarrow> string" where
  "fmt_f1 x =
     (let m = nat (round_half_even (\<bar>x\<bar> * 10))
      in signo x @ str_nat (m div 10) @ ''.'' @ str_nat (m mod 10))"

text \<open>
  Floats. A float is modelled by the rational number it denotes. \<open>doble\<close> rounds a rational
  to the nearest binary64 number (53 significant bits, ties to the even significand), as
  the machine does after every float operation; the exponent is taken as unbounded, which
  is exact for magnitudes from 2 to the power -1022 up to 2 to the power 1024.
  \<open>exponente x\<close> is the \<open>e\<close> with \<open>2 ^ e \<le> x < 2 ^ (e + 1)\<close>, for \<open>x > 0\<close>.

  The confidences come from 32-bit floats, so that the product by 100 that the percent
  format computes is exact in binary64; \<open>fmt_pct\<close> needs no rounding step before it formats.
\<close>

fun bits :: "nat \<Rightarrow> nat" where
  "bits n = (if n = 0 then 0 else Suc (bits (n div 2)))"

declare bits.simps [simp del]

definition dos_a :: "int \<Rightarrow> rat" where
  "dos_a k = (if 0 \<le> k then 2 ^ nat k else 1 / 2 ^ nat (- k))"

definition exponente :: "rat \<Rightarrow> int" where
  "exponente x =
     (if 1 \<le> x then int (bits (nat \<lfloor>x\<rfloor>)) - 1
      else (let k = int (bits (nat \<lfloor>1 / x\<rfloor>))
            in if x = dos_a (1 - k) then 1 - k else - k))"

definition doble :: "rat \<Rightarrow> rat" where
  "doble x =
     (if x = 0 then 0
      else (let q = dos_a (exponente \<bar>x\<bar> - 52)
            in sgn x * of_int (round_half_even (\<bar>x\<bar> / q)) * q))"

text \<open>A reading of \<open>datetime.now()\<close> and the two \<open>strftime\<close> formats the script uses.\<close>

record fecha =
  year :: nat
  month :: nat
  day :: nat
  hour :: nat
  minute :: nat
  second :: nat

definition strftime_HMS :: "fecha \<Rightarrow> string" where
  "strftime_HMS t =
     zfill 2 (str_nat (hour t)) @ '':'' @ zfill 2 (str_nat (minute t)) @ '':'' @
     zfill 2 (str_nat (second t))"

definition strftime_YmdHMS :: "fecha \<Rightarrow> string" where
  "strftime_YmdHMS t =
     zfill 4 (str_nat (year t)) @ zfill 2 (str_nat (month t)) @ zfill 2 (str_nat (day t)) @ ''_'' @
     zfill 2 (str_nat (hour t)) @ zfill 2 (str_nat (minute t)) @ zfill 2 (str_nat (second t))"

subsection \<open>Images, detector output, detections\<close>

text \<open>
  An image is an opaque picture with its shape and the list of the OpenCV drawing calls
  applied to it so far, in order (\<open>cv2.rectangle\<close> and \<open>cv2.putText\<close> draw in place).
\<close>

datatype font = FONT_HERSHEY_SIMPLEX | FONT_HERSHEY_DUPLEX

type_synonym punto = "int \<times> int"
type_synonym color = "int \<times> int \<times> int"

datatype trazo =
    Rectangle punto punto color int
  | PutText string punto font rat color int

record imagen =
  pixeles :: nat
  alto :: int
  ancho :: int
  trazos :: "trazo list"

definition dibujar :: "trazo \<Rightarrow> imagen \<Rightarrow> imagen" where
  "dibujar t img = img\<lparr>trazos := trazos img @ [t]\<rparr>"

text \<open>
  The detector is external. One result object carries its boxes and the picture that
  \<open>r.plot()\<close> returns; a box carries \<open>int(box.cls)\<close>, \<open>float(box.conf)\<close> and its corners.
\<close>

record caja =
  cls :: int
  conf :: rat
  xyxy :: "rat \<times> rat \<times> rat \<times> rat"

record resultado =
  boxes :: "caja list"
  plot :: imagen

text \<open>The dict appended to \<open>objetos_detectados\<close>.\<close>

record deteccion =
  nombre :: string
  alerta :: string
  confianza :: rat
  bbox :: "rat \<times> rat \<times> rat \<times> rat"

subsection \<open>Session state and the input of one loop iteration\<close>

text \<open>
  The module-level variables the loop works on, together with the effects of the script
  on the outside: the lines printed, the frames handed to \<open>cv2.imshow\<close>, the files written
  by \<open>cv2.imwrite\<close>, and whether the camera and the windows have been released.
  \<open>frame_anotado\<close> is \<open>None\<close> while the name is unbound.
\<close>

record estado =
  frame_count :: int
  fps_start_time :: rat
  fps :: rat
  alertas_totales :: int
  log_eventos :: "string list"
  frame_anotado :: "imagen option"
  consola :: "string list"
  mostrados :: "imagen list"
  archivos :: "(string \<times> imagen) list"
  cap_liberada :: bool
  ventanas_cerradas :: bool

definition print :: "string \<Rightarrow> estado \<Rightarrow> estado" where
  "print linea s = s\<lparr>consola := consola s @ [linea]\<rparr>"

text \<open>
  What the outside supplies during one iteration: the flag of \<open>cap.read()\<close>, the detector
  applied to the frame read (as a function of the threshold it is given), the two readings
  of \<open>time.time()\<close> used when the FPS value is refreshed, the successive readings of
  \<open>datetime.now()\<close>, and the value of \<open>cv2.waitKey(1)\<close>.
\<close>

record entrada =
  ret :: bool
  predict :: "rat \<Rightarrow> resultado list"
  time_time :: "rat \<times> rat"
  now :: "nat \<Rightarrow> fecha"
  waitKey :: int

definition estado_inicial :: "rat \<Rightarrow> estado" where
  "estado_inicial t0 =
     \<lparr>frame_count = 0, fps_start_time = t0, fps = 0, alertas_totales = 0, log_eventos = [],
      frame_anotado = None, consola = [], mostrados = [], archivos = [],
      cap_liberada = False, ventanas_cerradas = False\<rparr>"


subsection \<open>One iteration of the main loop\<close>

text \<open>
  An iteration either lets the loop go on, or leaves it: by \<open>break\<close> (the quit key, a
  failed capture), by \<open>KeyboardInterrupt\<close>, or by an exception that nothing catches. The
  state at that moment goes with it, since the \<open>finally\<close> block reads it.
\<close>

datatype motivo = Quit | CapturaFallida | Interrupcion | Excepcion error

datatype paso = Continua estado | Sale motivo estado

text \<open>
  The FPS counter, refreshed every 30 frames. The clock readings are floats (seconds since
  the epoch); their difference is a float subtraction, the counter is converted to a
  float, and the quotient is a float division: each result is rounded. The rounded
  difference of two floats is zero exactly when they are equal, and then the division
  raises.
\<close>

definition calcular_fps :: "rat \<times> rat \<Rightarrow> estado \<Rightarrow> error \<times> estado + estado" where
  "calcular_fps tt s =
     (let s1 = s\<lparr>frame_count := frame_count s + 1\<rparr>
      in if 30 \<le> frame_count s1 then
           (if doble (fst tt - fps_start_time s1) = 0 then Inl (ZeroDivisionError, s1)
            else Inr (s1\<lparr>fps := doble (doble (of_int (frame_count s1)) /
                                        doble (fst tt - fps_start_time s1)),
                         fps_start_time := snd tt,
                         frame_count := 0\<rparr>))
         else Inr s1)"

text \<open>The inner loop over \<open>r.boxes\<close>: a box of a dangerous class becomes a detection.\<close>

fun revisar_boxes ::
  "int list \<Rightarrow> (int \<times> string) list \<Rightarrow> caja list \<Rightarrow> deteccion list \<Rightarrow> error + deteccion list" where
  "revisar_boxes ids names [] objetos_detectados = Inr objetos_detectados"
| "revisar_boxes ids names (box # resto) objetos_detectados =
     (let clase_id = cls box
      in if clase_id \<in> set ids then
           (case getitem names clase_id of
              Inl e \<Rightarrow> Inl e
            | Inr nombre_clase \<Rightarrow>
                (case getitem OBJETOS_PELIGROSOS nombre_clase of
                   Inl e \<Rightarrow> Inl e
                 | Inr a \<Rightarrow>
                     revisar_boxes ids names resto
                       (objetos_detectados @
                          [\<lparr>nombre = nombre_clase, alerta = a, confianza = conf box,
                            bbox = xyxy box\<rparr>])))
         else revisar_boxes ids names resto objetos_detectados)"

text \<open>
  The outer loop over \<open>resultados\<close>: every result object rebinds \<open>frame_anotado\<close> to its
  plot, then its boxes are scanned. With no result object the name is left as it was.
\<close>

fun procesar_resultados ::
  "int list \<Rightarrow> (int \<times> string) list \<Rightarrow> resultado list \<Rightarrow> estado \<times> deteccion list \<Rightarrow>
     error \<times> estado + estado \<times> deteccion list" where
  "procesar_resultados ids names [] acc = Inr acc"
| "procesar_resultados ids names (r # rs) (s, objetos_detectados) =
     (let s1 = s\<lparr>frame_anotado := Some (plot r)\<rparr>
      in case revisar_boxes ids names (boxes r) objetos_detectados of
           Inl e \<Rightarrow> Inl (e, s1)
         | Inr objs \<Rightarrow> procesar_resultados ids names rs (s1, objs))"

definition anotar ::
  "int list \<Rightarrow> (int \<times> string) list \<Rightarrow> entrada \<Rightarrow> estado \<Rightarrow>
     error \<times> estado + estado \<times> deteccion list" where
  "anotar ids names e s =
     (case calcular_fps (time_time e) s of
        Inl x \<Rightarrow> Inl x
      | Inr s1 \<Rightarrow> procesar_resultados ids names (predict e conf_umbral) (s1, []))"

text \<open>The event log: \<open>xs[-n:]\<close>, and the append guarded by the look at the last five entries.\<close>

definition ultimos :: "nat \<Rightarrow> 'a list \<Rightarrow> 'a list" where
  "ultimos n xs = drop (length xs - n) xs"

definition registrar :: "string \<Rightarrow> estado \<Rightarrow> estado" where
  "registrar evento s =
     (if evento \<notin> set (ultimos 5 (log_eventos s)) then
        (print ([CHR 0xF0, CHR 0x9F, CHR 0x9A, CHR 0xA8] @ '' '' @ evento) s)
          \<lparr>log_eventos := log_eventos s @ [evento]\<rparr>
      else s)"

text \<open>
  The loop over \<open>objetos_detectados\<close>: one chip (a filled rectangle and its text) per
  detection, 50 pixels below the previous one, and one event line. \<open>tw\<close> is the text width
  that \<open>cv2.getTextSize\<close> reports; \<open>k\<close> counts the readings of the clock.
\<close>

definition texto_chip :: "deteccion \<Rightarrow> string" where
  "texto_chip obj = alerta obj @ '' - '' @ fmt_pct (confianza obj)"

definition evento_de :: "fecha \<Rightarrow> deteccion \<Rightarrow> string" where
  "evento_de t obj =
     ''['' @ strftime_HMS t @ ''] '' @ alerta obj @ '' - Confianza: '' @ fmt_pct (confianza obj)"

fun listar_objetos ::
  "(string \<Rightarrow> int) \<Rightarrow> (nat \<Rightarrow> fecha) \<Rightarrow> deteccion list \<Rightarrow> nat \<Rightarrow> int \<Rightarrow> imagen \<Rightarrow> estado \<Rightarrow>
     imagen \<times> estado" where
  "listar_objetos tw ahora [] k y_pos img s = (img, s)"
| "listar_objetos tw ahora (obj # objs) k y_pos img s =
     (let texto = texto_chip obj;
          img1 = dibujar (Rectangle (40, y_pos - 30) (40 + tw texto + 20, y_pos + 10)
                            (0, 100, 255) (- 1)) img;
          img2 = dibujar (PutText texto (50, y_pos) FONT_HERSHEY_SIMPLEX (8 / 10)
                            (255, 255, 255) 2) img1
      in listar_objetos tw ahora objs (Suc k) (y_pos + 50) img2
           (registrar (evento_de (ahora k) obj) s))"

definition texto_banner :: "nat \<Rightarrow> string" where
  "texto_banner n = ''ALERTA: '' @ str_nat n @ '' OBJETO(S) PELIGROSO(S) DETECTADO(S)''"

definition alertar ::
  "(string \<Rightarrow> int) \<Rightarrow> (nat \<Rightarrow> fecha) \<Rightarrow> deteccion list \<Rightarrow> estado \<Rightarrow> error \<times> estado + estado" where
  "alertar tw ahora objetos_detectados s =
     (if objetos_detectados \<noteq> [] then
        (let s1 = s\<lparr>alertas_totales := alertas_totales s + int (length objetos_detectados)\<rparr>
         in case frame_anotado s1 of
              None \<Rightarrow> Inl (NameError, s1)
            | Some img \<Rightarrow>
                (let img1 = dibujar (Rectangle (40, 20) (1240, 80) (0, 0, 255) (- 1)) img;
                     img2 = dibujar (PutText (texto_banner (length objetos_detectados)) (50, 60)
                                       FONT_HERSHEY_DUPLEX (9 / 10) (255, 255, 255) 2) img1;
                     (img3, s2) = listar_objetos tw ahora objetos_detectados 0 120 img2 s1
                 in Inr (s2\<lparr>frame_anotado := Some img3\<rparr>)))
      else Inr s)"

text \<open>The on-screen information (FPS, status line, total) and \<open>cv2.imshow\<close>.\<close>

definition ALERTA_ACTIVA :: string where
  "ALERTA_ACTIVA = [CHR 0xF0, CHR 0x9F, CHR 0x94, CHR 0xB4] @ '' ALERTA ACTIVA''"

definition ZONA_SEGURA :: string where
  "ZONA_SEGURA = [CHR 0xF0, CHR 0x9F, CHR 0x9F, CHR 0xA2] @ '' ZONA SEGURA''"

definition informar :: "deteccion list \<Rightarrow> estado \<Rightarrow> error \<times> estado + estado" where
  "informar objetos_detectados s =
     (case frame_anotado s of
        None \<Rightarrow> Inl (NameError, s)
      | Some img \<Rightarrow>
          (let h = alto img;
               img1 = dibujar (PutText (''FPS: '' @ fmt_f1 (fps s)) (10, h - 70)
                                 FONT_HERSHEY_SIMPLEX (7 / 10) (0, 255, 0) 2) img;
               (estado_txt, color_estado) =
                  (if objetos_detectados \<noteq> [] then (ALERTA_ACTIVA, (0, 0, 255))
                   else (ZONA_SEGURA, (0, 255, 0)));
               img2 = dibujar (PutText estado_txt (10, h - 40)
                                 FONT_HERSHEY_DUPLEX (9 / 10) color_estado 2) img1;
               img3 = dibujar (PutText (''Total alertas: '' @ str_int (alertas_totales s))
                                 (10, h - 10) FONT_HERSHEY_SIMPLEX (7 / 10) (255, 255, 255) 2) img2
           in Inr (s\<lparr>frame_anotado := Some img3, mostrados := mostrados s @ [img3]\<rparr>)))"

definition superponer ::
  "(string \<Rightarrow> int) \<Rightarrow> (nat \<Rightarrow> fecha) \<Rightarrow> deteccion list \<Rightarrow> estado \<Rightarrow> error \<times> estado + estado" where
  "superponer tw ahora objetos_detectados s =
     (case alertar tw ahora objetos_detectados s of
        Inl x \<Rightarrow> Inl x
      | Inr s1 \<Rightarrow> informar objetos_detectados s1)"

text \<open>The keyboard: \<open>q\<close> leaves the loop, \<open>s\<close> saves the frame, \<open>r\<close> resets the counters.\<close>

definition ord :: "char \<Rightarrow> int" where
  "ord c = of_char c"

definition controles :: "int \<Rightarrow> fecha \<Rightarrow> estado \<Rightarrow> paso" where
  "controles key t s =
     (if key = ord (CHR ''q'') then
        Sale Quit
          (print ([CHR 0x0A, CHR 0xF0, CHR 0x9F, CHR 0x9B, CHR 0x91] @
                  '' Deteniendo sistema de detecci'' @ [CHR 0xC3, CHR 0xB3] @ ''n...'') s)
      else if key = ord (CHR ''s'') then
        (case frame_anotado s of
           None \<Rightarrow> Sale (Excepcion NameError) s
         | Some img \<Rightarrow>
             (let nombre_archivo = ''captura_alerta_'' @ strftime_YmdHMS t @ ''.jpg''
              in Continua
                   (print ([CHR 0xF0, CHR 0x9F, CHR 0x93, CHR 0xB8] @ '' Captura guardada: '' @
                           nombre_archivo)
                      (s\<lparr>archivos := archivos s @ [(nombre_archivo, img)]\<rparr>))))
      else if key = ord (CHR ''r'') then
        Continua
          (print ([CHR 0xF0, CHR 0x9F, CHR 0x94, CHR 0x84] @ '' Contador de alertas reseteado'')
             (s\<lparr>alertas_totales := 0, log_eventos := []\<rparr>))
      else Continua s)"

definition iteracion ::
  "int list \<Rightarrow> (int \<times> string) list \<Rightarrow> (string \<Rightarrow> int) \<Rightarrow> entrada \<Rightarrow> estado \<Rightarrow> paso" where
  "iteracion ids names tw e s =
     (if \<not> ret e then
        Sale CapturaFallida
          (print ([CHR 0xE2, CHR 0x9D, CHR 0x8C] @ '' Error al capturar frame'') s)
      else
        (case anotar ids names e s of
           Inl (err, s') \<Rightarrow> Sale (Excepcion err) s'
         | Inr (s1, objetos_detectados) \<Rightarrow>
             (case superponer tw (now e) objetos_detectados s1 of
                Inl (err, s') \<Rightarrow> Sale (Excepcion err) s'
              | Inr s2 \<Rightarrow>
                  controles (waitKey e AND 0xFF) (now e (length objetos_detectados)) s2)))"


subsection \<open>The iteration statement by statement\<close>

text \<open>
  A \<open>KeyboardInterrupt\<close> can be raised between any two statements of the loop body, and
  the \<open>finally\<close> block then reads the variables as they are at that moment. For this the
  body of one iteration is laid out as the list of its statements, in the order in which
  they run for the given input. A statement either hands on the state or leaves the loop
  (a \<open>break\<close>, an exception). Statements that only compute local values (the detection
  list, texts, positions) are joined to the next statement that has an effect; a statement
  under an \<open>if\<close> on the state tests the condition itself, which the statements before it
  in the same block leave as it was.
\<close>

type_synonym sentencia = "estado \<Rightarrow> paso"

definition seguir :: "(estado \<Rightarrow> estado) \<Rightarrow> sentencia" where
  "seguir f s = Continua (f s)"

definition lanzar :: "error \<Rightarrow> sentencia" where
  "lanzar err s = Sale (Excepcion err) s"

definition romper :: "motivo \<Rightarrow> sentencia" where
  "romper m s = Sale m s"

text \<open>A drawing call on \<open>frame_anotado\<close>: the name must be bound.\<close>

definition dibujar_en :: "(estado \<Rightarrow> imagen \<Rightarrow> trazo) \<Rightarrow> sentencia" where
  "dibujar_en t s =
     (case frame_anotado s of
        None \<Rightarrow> Sale (Excepcion NameError) s
      | Some img \<Rightarrow> Continua (s\<lparr>frame_anotado := Some (dibujar (t s img) img)\<rparr>))"

text \<open>The texts the loop prints.\<close>

definition alarma :: "string \<Rightarrow> string" where
  "alarma evento = [CHR 0xF0, CHR 0x9F, CHR 0x9A, CHR 0xA8] @ '' '' @ evento"

definition error_captura :: string where
  "error_captura = [CHR 0xE2, CHR 0x9D, CHR 0x8C] @ '' Error al capturar frame''"

definition deteniendo :: string where
  "deteniendo =
     [CHR 0x0A, CHR 0xF0, CHR 0x9F, CHR 0x9B, CHR 0x91] @ '' Deteniendo sistema de detecci'' @
     [CHR 0xC3, CHR 0xB3] @ ''n...''"

definition captura_guardada :: "string \<Rightarrow> string" where
  "captura_guardada nombre_archivo =
     [CHR 0xF0, CHR 0x9F, CHR 0x93, CHR 0xB8] @ '' Captura guardada: '' @ nombre_archivo"

definition reseteado :: string where
  "reseteado = [CHR 0xF0, CHR 0x9F, CHR 0x94, CHR 0x84] @ '' Contador de alertas reseteado''"

text \<open>Lines 77 to 81: the frame counter and, under \<open>if frame_count >= 30\<close>, three assignments.\<close>

definition sent_fps :: "rat \<times> rat \<Rightarrow> sentencia list" where
  "sent_fps tt =
     [seguir (\<lambda>s. s\<lparr>frame_count := frame_count s + 1\<rparr>),
      (\<lambda>s. if 30 \<le> frame_count s then
              (if doble (fst tt - fps_start_time s) = 0 then Sale (Excepcion ZeroDivisionError) s
               else Continua (s\<lparr>fps := doble (doble (of_int (frame_count s)) /
                                             doble (fst tt - fps_start_time s))\<rparr>))
            else Continua s),
      seguir (\<lambda>s. if 30 \<le> frame_count s then s\<lparr>fps_start_time := snd tt\<rparr> else s),
      seguir (\<lambda>s. if 30 \<le> frame_count s then s\<lparr>frame_count := 0\<rparr> else s)]"

text \<open>
  Lines 89 to 108: for every result object the assignment of \<open>frame_anotado\<close>, then the scan
  of its boxes, which touches the local list only and is a statement of its own only when
  it raises. \<open>detectados\<close> is the list the loop ends with.
\<close>

fun sent_resultados ::
  "int list \<Rightarrow> (int \<times> string) list \<Rightarrow> resultado list \<Rightarrow> deteccion list \<Rightarrow> sentencia list" where
  "sent_resultados ids names [] objs = []"
| "sent_resultados ids names (r # rs) objs =
     seguir (\<lambda>s. s\<lparr>frame_anotado := Some (plot r)\<rparr>) #
     (case revisar_boxes ids names (boxes r) objs of
        Inl err \<Rightarrow> [lanzar err]
      | Inr objs' \<Rightarrow> sent_resultados ids names rs objs')"

fun detectados ::
  "int list \<Rightarrow> (int \<times> string) list \<Rightarrow> resultado list \<Rightarrow> deteccion list \<Rightarrow> deteccion list" where
  "detectados ids names [] objs = objs"
| "detectados ids names (r # rs) objs =
     (case revisar_boxes ids names (boxes r) objs of
        Inl err \<Rightarrow> objs
      | Inr objs' \<Rightarrow> detectados ids names rs objs')"

text \<open>
  Lines 112 to 138: the counter, the banner, and for every detection its chip (two drawing
  calls) and, under \<open>if evento not in ...\<close>, the print and the append.
\<close>

fun sent_objetos ::
  "(string \<Rightarrow> int) \<Rightarrow> (nat \<Rightarrow> fecha) \<Rightarrow> deteccion list \<Rightarrow> nat \<Rightarrow> int \<Rightarrow> sentencia list" where
  "sent_objetos tw ahora [] k y_pos = []"
| "sent_objetos tw ahora (obj # objs) k y_pos =
     [dibujar_en (\<lambda>s img. Rectangle (40, y_pos - 30) (40 + tw (texto_chip obj) + 20, y_pos + 10)
                             (0, 100, 255) (- 1)),
      dibujar_en (\<lambda>s img. PutText (texto_chip obj) (50, y_pos) FONT_HERSHEY_SIMPLEX (8 / 10)
                             (255, 255, 255) 2),
      seguir (\<lambda>s. if evento_de (ahora k) obj \<notin> set (ultimos 5 (log_eventos s))
                   then print (alarma (evento_de (ahora k) obj)) s else s),
      seguir (\<lambda>s. if evento_de (ahora k) obj \<notin> set (ultimos 5 (log_eventos s))
                   then s\<lparr>log_eventos := log_eventos s @ [evento_de (ahora k) obj]\<rparr> else s)] @
     sent_objetos tw ahora objs (Suc k) (y_pos + 50)"

definition sent_alertar ::
  "(string \<Rightarrow> int) \<Rightarrow> (nat \<Rightarrow> fecha) \<Rightarrow> deteccion list \<Rightarrow> sentencia list" where
  "sent_alertar tw ahora objs =
     (if objs \<noteq> [] then
        [seguir (\<lambda>s. s\<lparr>alertas_totales := alertas_totales s + int (length objs)\<rparr>),
         dibujar_en (\<lambda>s img. Rectangle (40, 20) (1240, 80) (0, 0, 255) (- 1)),
         dibujar_en (\<lambda>s img. PutText (texto_banner (length objs)) (50, 60)
                                FONT_HERSHEY_DUPLEX (9 / 10) (255, 255, 255) 2)] @
        sent_objetos tw ahora objs 0 120
      else [])"

text \<open>Lines 141 to 163: the three texts and \<open>cv2.imshow\<close>.\<close>

definition sent_informar :: "deteccion list \<Rightarrow> sentencia list" where
  "sent_informar objs =
     [dibujar_en (\<lambda>s img. PutText (''FPS: '' @ fmt_f1 (fps s)) (10, alto img - 70)
                             FONT_HERSHEY_SIMPLEX (7 / 10) (0, 255, 0) 2),
      dibujar_en (\<lambda>s img. if objs \<noteq> [] then
                             PutText ALERTA_ACTIVA (10, alto img - 40)
                               FONT_HERSHEY_DUPLEX (9 / 10) (0, 0, 255) 2
                           else
                             PutText ZONA_SEGURA (10, alto img - 40)
                               FONT_HERSHEY_DUPLEX (9 / 10) (0, 255, 0) 2),
      dibujar_en (\<lambda>s img. PutText (''Total alertas: '' @ str_int (alertas_totales s))
                             (10, alto img - 10) FONT_HERSHEY_SIMPLEX (7 / 10) (255, 255, 255) 2),
      (\<lambda>s. case frame_anotado s of
              None \<Rightarrow> Sale (Excepcion NameError) s
            | Some img \<Rightarrow> Continua (s\<lparr>mostrados := mostrados s @ [img]\<rparr>))]"

text \<open>Lines 166 to 180: the statements of the branch the key selects.\<close>

definition sent_controles :: "int \<Rightarrow> fecha \<Rightarrow> sentencia list" where
  "sent_controles key t =
     (if key = ord (CHR ''q'') then [seguir (print deteniendo), romper Quit]
      else if key = ord (CHR ''s'') then
        [(\<lambda>s. case frame_anotado s of
                None \<Rightarrow> Sale (Excepcion NameError) s
              | Some img \<Rightarrow>
                  Continua (s\<lparr>archivos := archivos s @
                     [(''captura_alerta_'' @ strftime_YmdHMS t @ ''.jpg'', img)]\<rparr>)),
         seguir (print (captura_guardada (''captura_alerta_'' @ strftime_YmdHMS t @ ''.jpg'')))]
      else if key = ord (CHR ''r'') then
        [seguir (\<lambda>s. s\<lparr>alertas_totales := 0\<rparr>),
         seguir (\<lambda>s. s\<lparr>log_eventos := []\<rparr>),
         seguir (print reseteado)]
      else [])"

text \<open>
  The statements of one iteration: \<open>cuerpo\<close> up to the display of the frame, then the
  branch of the key; or, when the capture fails, the print and the \<open>break\<close>.
\<close>

definition cuerpo ::
  "int list \<Rightarrow> (int \<times> string) list \<Rightarrow> (string \<Rightarrow> int) \<Rightarrow> entrada \<Rightarrow> sentencia list" where
  "cuerpo ids names tw e =
     sent_fps (time_time e) @
     sent_resultados ids names (predict e conf_umbral) [] @
     sent_alertar tw (now e) (detectados ids names (predict e conf_umbral) []) @
     sent_informar (detectados ids names (predict e conf_umbral) [])"

definition sentencias ::
  "int list \<Rightarrow> (int \<times> string) list \<Rightarrow> (string \<Rightarrow> int) \<Rightarrow> entrada \<Rightarrow> sentencia list" where
  "sentencias ids names tw e =
     (if \<not> ret e then [seguir (print error_captura), romper CapturaFallida]
      else cuerpo ids names tw e @
           sent_controles (waitKey e AND 0xFF)
             (now e (length (detectados ids names (predict e conf_umbral) []))))"

text \<open>
  Running the statements to the end of the iteration, and running them until a
  \<open>KeyboardInterrupt\<close> is raised: \<open>interrumpir n\<close> raises it when \<open>n\<close> statements have
  run (at the end of the iteration when it has fewer), unless the loop has been left before.
\<close>

fun correr :: "sentencia list \<Rightarrow> estado \<Rightarrow> paso" where
  "correr [] s = Continua s"
| "correr (f # fs) s =
     (case f s of
        Continua s' \<Rightarrow> correr fs s'
      | Sale m s' \<Rightarrow> Sale m s')"

fun interrumpir :: "nat \<Rightarrow> sentencia list \<Rightarrow> estado \<Rightarrow> paso" where
  "interrumpir 0 fs s = Sale Interrupcion s"
| "interrumpir (Suc n) [] s = Sale Interrupcion s"
| "interrumpir (Suc n) (f # fs) s =
     (case f s of
        Continua s' \<Rightarrow> interrumpir n fs s'
      | Sale m s' \<Rightarrow> Sale m s')"

subsection \<open>The loop, the handler, the \<open>finally\<close> block\<close>

text \<open>
  The loop is driven from outside: each element of the input list is the input of one
  iteration, which either runs undisturbed (\<open>Cuadro\<close>) or is cut by an interrupt from the
  keyboard after the given number of its statements (\<open>CtrlC\<close>; with 0 the interrupt comes
  while the loop waits for the camera). When the list ends with no exit taken, the loop is
  still running. The handler and the \<open>finally\<close> block are taken to run undisturbed.
\<close>

datatype suceso = Cuadro entrada | CtrlC nat entrada

fun bucle ::
  "int list \<Rightarrow> (int \<times> string) list \<Rightarrow> (string \<Rightarrow> int) \<Rightarrow> suceso list \<Rightarrow> estado \<Rightarrow> paso" where
  "bucle ids names tw [] s = Continua s"
| "bucle ids names tw (CtrlC n e # resto) s = interrumpir n (sentencias ids names tw e) s"
| "bucle ids names tw (Cuadro e # resto) s =
     (case iteracion ids names tw e s of
        Continua s' \<Rightarrow> bucle ids names tw resto s'
      | Sale m s' \<Rightarrow> Sale m s')"

text \<open>\<open>except KeyboardInterrupt\<close>: the only exception the script handles.\<close>

definition manejar :: "motivo \<Rightarrow> estado \<Rightarrow> estado" where
  "manejar m s =
     (case m of
        Interrupcion \<Rightarrow>
          print ([CHR 0x0A, CHR 0xE2, CHR 0x9A, CHR 0xA0, CHR 0xEF, CHR 0xB8, CHR 0x8F] @
                 '' Interrupci'' @ [CHR 0xC3, CHR 0xB3] @ ''n por teclado detectada'') s
      | _ \<Rightarrow> s)"

text \<open>
  The \<open>finally\<close> block, in its two parts: the resources are released (the camera,
  then the windows), then the summary is printed.
\<close>

definition separador :: string where
  "separador = replicate 70 (CHR ''='')"

fun imprimir_eventos :: "string list \<Rightarrow> estado \<Rightarrow> estado" where
  "imprimir_eventos [] s = s"
| "imprimir_eventos (evento # resto) s = imprimir_eventos resto (print (''  '' @ evento) s)"

definition liberar_recursos :: "estado \<Rightarrow> estado" where
  "liberar_recursos s =
     (let s1 = s\<lparr>cap_liberada := True\<rparr>
      in s1\<lparr>ventanas_cerradas := True\<rparr>)"

definition resumen_final :: "estado \<Rightarrow> estado" where
  "resumen_final s =
     (let s3 = print ([CHR 0x0A] @ separador) s;
          s4 = print ([CHR 0xF0, CHR 0x9F, CHR 0x93, CHR 0x8A] @ '' RESUMEN DE LA SESI'' @
                      [CHR 0xC3, CHR 0x93] @ ''N'') s3;
          s5 = print separador s4;
          s6 = print (''Total de alertas generadas: '' @ str_int (alertas_totales s5)) s5;
          s7 = print (''Eventos '' @ [CHR 0xC3, CHR 0xBA] @ ''nicos registrados: '' @
                      str_nat (length (log_eventos s6))) s6;
          s8 = (if log_eventos s7 \<noteq> [] then
                  imprimir_eventos (ultimos 10 (log_eventos s7))
                    (print ([CHR 0x0A, CHR 0xF0, CHR 0x9F, CHR 0x93, CHR 0x8B] @ '' '' @
                            [CHR 0xC3, CHR 0x9A] @ ''ltimos 10 eventos:'') s7)
                else s7);
          s9 = print ([CHR 0x0A, CHR 0xE2, CHR 0x9C, CHR 0x85] @
                      '' Sistema detenido correctamente'') s8
      in print separador s9)"

definition finalizar :: "estado \<Rightarrow> estado" where
  "finalizar s = resumen_final (liberar_recursos s)"

text \<open>
  The \<open>try\<close> statement as a whole. \<open>None\<close>: the inputs ran out with the loop still going.
  Otherwise the way the loop was left and the state after the \<open>finally\<close> block.
\<close>

definition sesion ::
  "int list \<Rightarrow> (int \<times> string) list \<Rightarrow> (string \<Rightarrow> int) \<Rightarrow> suceso list \<Rightarrow> estado \<Rightarrow>
     (motivo \<times> estado) option" where
  "sesion ids names tw sucesos s =
     (case bucle ids names tw sucesos s of
        Continua s' \<Rightarrow> None
      | Sale m s' \<Rightarrow> Some (m, finalizar (manejar m s')))"


subsection \<open>Start-up as a whole\<close>

text \<open>
  The banner, the scan of the class table, the help on the keys, the camera. When the
  camera cannot be opened the script prints its advice and calls \<open>exit()\<close> before the
  \<open>try\<close> statement is reached; otherwise the counters are initialised and the loop starts.
\<close>

definition cabecera :: "string list" where
  "cabecera =
     [separador,
      [CHR 0xF0, CHR 0x9F, CHR 0x8E, CHR 0xA5] @ '' SISTEMA DE SEGURIDAD PARA ESTADIOS - ECUADOR'',
      separador,
      [CHR 0xF0, CHR 0x9F, CHR 0x93, CHR 0xA6] @ '' Cargando modelo YOLOv8...'',
      [CHR 0xE2, CHR 0x9C, CHR 0x85] @ '' Modelo cargado correctamente'' @ [CHR 0x0A]]"

definition ayuda_controles :: "string list" where
  "ayuda_controles =
     [[CHR 0x0A] @ separador,
      [CHR 0xE2, CHR 0x8C, CHR 0xA8, CHR 0xEF, CHR 0xB8, CHR 0x8F] @ '' CONTROLES:'',
      ''   '' @ [CHR 0x27] @ ''q'' @ [CHR 0x27] @ '' '' @ [CHR 0xE2, CHR 0x86, CHR 0x92] @
        '' Salir del sistema'',
      ''   '' @ [CHR 0x27] @ ''s'' @ [CHR 0x27] @ '' '' @ [CHR 0xE2, CHR 0x86, CHR 0x92] @
        '' Guardar captura de pantalla'',
      ''   '' @ [CHR 0x27] @ ''r'' @ [CHR 0x27] @ '' '' @ [CHR 0xE2, CHR 0x86, CHR 0x92] @
        '' Resetear contador de alertas'',
      separador @ [CHR 0x0A]]"

definition sin_camara :: "string list" where
  "sin_camara =
     [[CHR 0xE2, CHR 0x9D, CHR 0x8C] @ '' ERROR: No se pudo acceder a la c'' @
        [CHR 0xC3, CHR 0xA1] @ ''mara'',
      [CHR 0x0A, CHR 0xF0, CHR 0x9F, CHR 0x92, CHR 0xA1] @ '' Soluciones:'',
      ''   1. Verifica que tu webcam est'' @ [CHR 0xC3, CHR 0xA9] @ '' conectada'',
      ''   2. Cierra otras aplicaciones que usen la c'' @ [CHR 0xC3, CHR 0xA1] @
        ''mara (Zoom, Teams, etc.)'',
      ''   3. Verifica los permisos de la c'' @ [CHR 0xC3, CHR 0xA1] @ ''mara en Windows'']"

definition camara_activada :: string where
  "camara_activada =
     [CHR 0xE2, CHR 0x9C, CHR 0x85] @ '' C'' @ [CHR 0xC3, CHR 0xA1] @
     ''mara activada - Iniciando detecci'' @ [CHR 0xC3, CHR 0xB3] @ ''n...'' @ [CHR 0x0A]"

datatype inicio = Falla error | Exit "string list" | Listo "int list" estado

definition arranque :: "(int \<times> string) list \<Rightarrow> bool \<Rightarrow> rat \<Rightarrow> inicio" where
  "arranque names isOpened t0 =
     (case clases_peligrosas_loop names ([], cabecera) of
        Inl e \<Rightarrow> Falla e
      | Inr (ids, out) \<Rightarrow>
          (if \<not> isOpened then Exit (out @ ayuda_controles @ sin_camara)
           else Listo ids
                  ((estado_inicial t0)\<lparr>consola := out @ ayuda_controles @ [camara_activada]\<rparr>)))"

subsection \<open>Auxiliary notions for the statements\<close>

text \<open>The state an iteration or a run of the loop ends in, whichever way it ends.\<close>

fun estado_de :: "paso \<Rightarrow> estado" where
  "estado_de (Continua s) = s"
| "estado_de (Sale m s) = s"

text \<open>
  A detection stems from one of the given boxes: its class name is the table's name of
  the box's class and a key of the danger-label mapping, its alert text is the label of
  that name, and confidence and corners are the box's.
\<close>

definition de_caja :: "(int \<times> string) list \<Rightarrow> caja list \<Rightarrow> deteccion \<Rightarrow> bool" where
  "de_caja names bs d \<longleftrightarrow>
     nombre d \<in> set (keys OBJETOS_PELIGROSOS) \<and>
     getitem OBJETOS_PELIGROSOS (nombre d) = Inr (alerta d) \<and>
     (\<exists>b \<in> set bs. getitem names (cls b) = Inr (nombre d) \<and> confianza d = conf b \<and>
        bbox d = xyxy b)"

text \<open>The relation between the two session counters: the alert count covers the log.\<close>

definition contador_cubre_log :: "estado \<Rightarrow> bool" where
  "contador_cubre_log s \<longleftrightarrow> int (length (log_eventos s)) \<le> alertas_totales s"


subsection \<open>Concrete inputs for the examples\<close>

text \<open>
  A small class table, a detector that finds a knife (0.8), a person (0.9) and two
  bottles (0.1 and 0.4) and returns the boxes that reach the threshold it is given, a
  detector that returns no result object at all, a clock, and a text-width function.
\<close>

definition names_demo :: "(int \<times> string) list" where
  "names_demo = [(0, ''person''), (39, ''bottle''), (43, ''knife''), (56, ''chair'')]"

definition plot_demo :: imagen where
  "plot_demo = \<lparr>pixeles = 1, alto = 720, ancho = 1280, trazos = []\<rparr>"

definition cajas_demo :: "caja list" where
  "cajas_demo =
     [\<lparr>cls = 43, conf = 8 / 10, xyxy = (10, 20, 110, 220)\<rparr>,
      \<lparr>cls = 0, conf = 9 / 10, xyxy = (300, 40, 500, 700)\<rparr>,
      \<lparr>cls = 39, conf = 1 / 10, xyxy = (600, 300, 640, 400)\<rparr>,
      \<lparr>cls = 39, conf = 4 / 10, xyxy = (700, 300, 740, 400)\<rparr>]"

definition predict_demo :: "rat \<Rightarrow> resultado list" where
  "predict_demo c = [\<lparr>boxes = filter (\<lambda>b. c \<le> conf b) cajas_demo, plot = plot_demo\<rparr>]"

definition predict_sin_cajas :: "rat \<Rightarrow> resultado list" where
  "predict_sin_cajas c = [\<lparr>boxes = [], plot = plot_demo\<rparr>]"


definition predict_vacio :: "rat \<Rightarrow> resultado list" where
  "predict_vacio c = []"

definition now_demo :: "nat \<Rightarrow> fecha" where
  "now_demo k = \<lparr>year = 2024, month = 5, day = 1, hour = 12, minute = 0, second = k mod 60\<rparr>"


definition cuchillo_demo :: deteccion where
  "cuchillo_demo =
     \<lparr>nombre = ''knife'', alerta = [CHR 0xF0, CHR 0x9F, CHR 0x94, CHR 0xAA] @ '' CUCHILLO'',
      confianza = 8 / 10, bbox = (10, 20, 110, 220)\<rparr>"

definition botella_demo :: deteccion where
  "botella_demo =
     \<lparr>nombre = ''bottle'', alerta = [CHR 0xF0, CHR 0x9F, CHR 0x8D, CHR 0xBE] @ '' BOTELLA'',
      confianza = 4 / 10, bbox = (700, 300, 740, 400)\<rparr>"


definition cuadro_demo :: "int \<Rightarrow> entrada" where
  "cuadro_demo key =
     \<lparr>ret = True, predict = predict_demo, time_time = (1, 2), now = now_demo, waitKey = key\<rparr>"

definition cuadro_vacio :: "int \<Rightarrow> entrada" where
  "cuadro_vacio key =
     \<lparr>ret = True, predict = predict_vacio, time_time = (1, 2), now = now_demo, waitKey = key\<rparr>"

definition cuadro_fallido :: entrada where
  "cuadro_fallido =
     \<lparr>ret = False, predict = predict_vacio, time_time = (1, 2), now = now_demo, waitKey = - 1\<rparr>"


text \<open>The states and texts of a sample session on these inputs.\<close>

definition inicio_demo :: estado where
  "inicio_demo =
     (estado_inicial 0)\<lparr>consola := cabecera @
        [detectando ([CHR 0xF0, CHR 0x9F, CHR 0x8D, CHR 0xBE] @ '' BOTELLA''),
         detectando ([CHR 0xF0, CHR 0x9F, CHR 0x94, CHR 0xAA] @ '' CUCHILLO'')] @
        ayuda_controles @ [camara_activada]\<rparr>"

definition evento_cuchillo :: string where
  "evento_cuchillo =
     ''[12:00:00] '' @ [CHR 0xF0, CHR 0x9F, CHR 0x94, CHR 0xAA] @ '' CUCHILLO - Confianza: 80%''"

definition evento_botella :: string where
  "evento_botella =
     ''[12:00:01] '' @ [CHR 0xF0, CHR 0x9F, CHR 0x8D, CHR 0xBE] @ '' BOTELLA - Confianza: 40%''"

definition chip_cuchillo :: string where
  "chip_cuchillo = [CHR 0xF0, CHR 0x9F, CHR 0x94, CHR 0xAA] @ '' CUCHILLO - 80%''"

definition chip_botella :: string where
  "chip_botella = [CHR 0xF0, CHR 0x9F, CHR 0x8D, CHR 0xBE] @ '' BOTELLA - 40%''"

definition mostrado_demo :: "string \<Rightarrow> imagen" where
  "mostrado_demo txt =
     plot_demo\<lparr>trazos :=
       [Rectangle (40, 20) (1240, 80) (0, 0, 255) (- 1),
        PutText ''ALERTA: 2 OBJETO(S) PELIGROSO(S) DETECTADO(S)'' (50, 60)
          FONT_HERSHEY_DUPLEX (9 / 10) (255, 255, 255) 2,
        Rectangle (40, 90) (364, 130) (0, 100, 255) (- 1),
        PutText chip_cuchillo (50, 120) FONT_HERSHEY_SIMPLEX (8 / 10) (255, 255, 255) 2,
        Rectangle (40, 140) (348, 180) (0, 100, 255) (- 1),
        PutText chip_botella (50, 170) FONT_HERSHEY_SIMPLEX (8 / 10) (255, 255, 255) 2,
        PutText ''FPS: 0.0'' (10, 650) FONT_HERSHEY_SIMPLEX (7 / 10) (0, 255, 0) 2,
        PutText ALERTA_ACTIVA (10, 680) FONT_HERSHEY_DUPLEX (9 / 10) (0, 0, 255) 2,
        PutText (''Total alertas: '' @ txt) (10, 710)
          FONT_HERSHEY_SIMPLEX (7 / 10) (255, 255, 255) 2]\<rparr>"

definition despues_demo :: estado where
  "despues_demo =
     inicio_demo\<lparr>frame_count := 1, alertas_totales := 2,
       log_eventos := [evento_cuchillo, evento_botella],
       frame_anotado := Some (mostrado_demo ''2''),
       consola := consola inicio_demo @ [alarma evento_cuchillo, alarma evento_botella],
       mostrados := [mostrado_demo ''2'']\<rparr>"

definition salida_q_demo :: estado where
  "salida_q_demo =
     despues_demo\<lparr>frame_count := 2, alertas_totales := 4,
       frame_anotado := Some (mostrado_demo ''4''),
       consola := consola despues_demo @ [deteniendo],
       mostrados := [mostrado_demo ''2'', mostrado_demo ''4'']\<rparr>"

definition resumen_demo :: "int \<Rightarrow> string list" where
  "resumen_demo n =
     [[CHR 0x0A] @ separador,
      [CHR 0xF0, CHR 0x9F, CHR 0x93, CHR 0x8A] @ '' RESUMEN DE LA SESI'' @
        [CHR 0xC3, CHR 0x93] @ ''N'',
      separador,
      ''Total de alertas generadas: '' @ str_int n,
      ''Eventos '' @ [CHR 0xC3, CHR 0xBA] @ ''nicos registrados: 2'',
      [CHR 0x0A, CHR 0xF0, CHR 0x9F, CHR 0x93, CHR 0x8B] @ '' '' @ [CHR 0xC3, CHR 0x9A] @
        ''ltimos 10 eventos:'',
      ''  '' @ evento_cuchillo,
      ''  '' @ evento_botella,
      [CHR 0x0A, CHR 0xE2, CHR 0x9C, CHR 0x85] @ '' Sistema detenido correctamente'',
      separador]"


subsection \<open>Properties of the start-up scan\<close>

lemma getitem_key:
  "k \<in> set (keys d) \<Longrightarrow> \<exists>v. getitem d k = Inr v \<and> (k, v) \<in> set d"
proof -
  assume "k \<in> set (keys d)"
  then have "map_of d k \<noteq> None"
    by (simp add: keys_def map_of_eq_None_iff)
  then obtain v where v: "map_of d k = Some v" by blast
  then have "(k, v) \<in> set d" by (rule map_of_SomeD)
  with v show ?thesis by (simp add: getitem_def)
qed

lemma clases_peligrosas_loop_ids:
  "\<exists>out'. clases_peligrosas_loop names (ids, out) =
     Inr (ids @ map fst (filter (\<lambda>(idx, nombre). nombre \<in> set (keys OBJETOS_PELIGROSOS)) names), out')"
proof (induction names arbitrary: ids out)
  case Nil
  show ?case by simp
next
  case (Cons p names)
  show ?case
  proof (cases p)
    case (Pair idx nombre)
    show ?thesis
    proof (cases "nombre \<in> set (keys OBJETOS_PELIGROSOS)")
      case True
      from getitem_key [OF True] obtain a where a: "getitem OBJETOS_PELIGROSOS nombre = Inr a"
        by (elim exE conjE)
      have "clases_peligrosas_loop (p # names) (ids, out) =
              clases_peligrosas_loop names (ids @ [idx], out @ [detectando a])"
        unfolding Pair using True a by simp
      with Cons.IH [of "ids @ [idx]" "out @ [detectando a]"] True Pair
      show ?thesis by simp
    next
      case False
      have "clases_peligrosas_loop (p # names) (ids, out) = clases_peligrosas_loop names (ids, out)"
        unfolding Pair using False by simp
      with Cons.IH [of ids out] False Pair show ?thesis by simp
    qed
  qed
qed

lemma clases_peligrosas_ids_eq:
  "clases_peligrosas_ids names =
     Inr (map fst (filter (\<lambda>(idx, nombre). nombre \<in> set (keys OBJETOS_PELIGROSOS)) names))"
  using clases_peligrosas_loop_ids [of names "[]" "[]"]
  by (auto simp: clases_peligrosas_ids_def)

text \<open>
  C2. For every class name of the model's class table, the id of that class is in the
  danger-id list computed at start-up if and only if the name is a key of the danger-label
  mapping. The class table is a dict, so its ids are distinct; the scan never raises.
\<close>

theorem danger_ids_iff_label_key:
  assumes "distinct (map fst names)"
  shows "\<exists>ids. clases_peligrosas_ids names = Inr ids \<and>
           (\<forall>(idx, nombre) \<in> set names.
              idx \<in> set ids \<longleftrightarrow> nombre \<in> set (keys OBJETOS_PELIGROSOS))"
proof -
  let ?ids = "map fst (filter (\<lambda>(idx, nombre). nombre \<in> set (keys OBJETOS_PELIGROSOS)) names)"
  have "idx \<in> set ?ids \<longleftrightarrow> nombre \<in> set (keys OBJETOS_PELIGROSOS)"
    if "(idx, nombre) \<in> set names" for idx nombre
  proof
    assume "idx \<in> set ?ids"
    then obtain n' where n': "(idx, n') \<in> set names" "n' \<in> set (keys OBJETOS_PELIGROSOS)"
      by auto
    from assms that n'(1) have "nombre = n'"
      by (rule eq_key_imp_eq_value)
    with n'(2) show "nombre \<in> set (keys OBJETOS_PELIGROSOS)" by simp
  next
    assume "nombre \<in> set (keys OBJETOS_PELIGROSOS)"
    with that show "idx \<in> set ?ids" by force
  qed
  then show ?thesis
    by (auto simp: clases_peligrosas_ids_eq)
qed

theorem danger_ids_iff_label_key_witness:
  "distinct (map fst [(0::int, ''person''), (39, ''bottle''), (43, ''knife''), (56, ''chair'')]) \<and>
   clases_peligrosas_ids [(0, ''person''), (39, ''bottle''), (43, ''knife''), (56, ''chair'')]
     = Inr [39, 43] \<and>
   (\<exists>ids. clases_peligrosas_ids [(0, ''person''), (39, ''bottle''), (43, ''knife''), (56, ''chair'')]
       = Inr ids \<and>
     (\<forall>(idx, nombre) \<in> set [(0, ''person''), (39, ''bottle''), (43, ''knife''), (56, ''chair'')].
        idx \<in> set ids \<longleftrightarrow> nombre \<in> set (keys OBJETOS_PELIGROSOS)))"
proof -
  have d: "distinct (map fst [(0::int, ''person''), (39, ''bottle''), (43, ''knife''), (56, ''chair'')])"
    by simp
  have e: "clases_peligrosas_ids [(0, ''person''), (39, ''bottle''), (43, ''knife''), (56, ''chair'')]
     = Inr [39, 43]"
    by (simp add: clases_peligrosas_ids_def keys_def getitem_def OBJETOS_PELIGROSOS_def)
  note t = danger_ids_iff_label_key [OF d]
  show ?thesis by (rule conjI [OF d conjI [OF e t]])
qed

subsection \<open>The detection filter\<close>


lemma id_peligroso_lookup:
  assumes "distinct (map fst names)" "clases_peligrosas_ids names = Inr ids" "i \<in> set ids"
  shows "\<exists>n a. getitem names i = Inr n \<and> n \<in> set (keys OBJETOS_PELIGROSOS) \<and>
           getitem OBJETOS_PELIGROSOS n = Inr a"
proof -
  from assms(2) have "ids = map fst (filter (\<lambda>(idx, nombre). nombre \<in> set (keys OBJETOS_PELIGROSOS)) names)"
    by (simp add: clases_peligrosas_ids_eq)
  with assms(3) obtain n where n: "(i, n) \<in> set names" "n \<in> set (keys OBJETOS_PELIGROSOS)"
    by auto
  from assms(1) n(1) have "map_of names i = Some n" by (rule map_of_is_SomeI)
  then have g: "getitem names i = Inr n" by (simp add: getitem_def)
  from getitem_key [OF n(2)] obtain a where "getitem OBJETOS_PELIGROSOS n = Inr a"
    by (elim exE conjE)
  with g n(2) show ?thesis by (intro exI conjI)
qed

lemma de_caja_mono: "de_caja names bs d \<Longrightarrow> set bs \<subseteq> set bs' \<Longrightarrow> de_caja names bs' d"
  unfolding de_caja_def by blast

lemma revisar_boxes_Inr:
  assumes "distinct (map fst names)" "clases_peligrosas_ids names = Inr ids"
  shows "\<exists>nuevos. revisar_boxes ids names bs objs = Inr (objs @ nuevos) \<and>
           length nuevos = length (filter (\<lambda>b. cls b \<in> set ids) bs) \<and>
           (\<forall>d \<in> set nuevos. de_caja names bs d)"
proof (induction bs arbitrary: objs)
  case Nil
  show ?case by simp
next
  case (Cons box bs)
  show ?case
  proof (cases "cls box \<in> set ids")
    case True
    from id_peligroso_lookup [OF assms True] obtain n a where
      na: "getitem names (cls box) = Inr n" "n \<in> set (keys OBJETOS_PELIGROSOS)"
          "getitem OBJETOS_PELIGROSOS n = Inr a"
      by (elim exE conjE)
    let ?d = "\<lparr>nombre = n, alerta = a, confianza = conf box, bbox = xyxy box\<rparr>"
    from Cons.IH [of "objs @ [?d]"] obtain nuevos where
      n1: "revisar_boxes ids names bs (objs @ [?d]) = Inr ((objs @ [?d]) @ nuevos)" and
      n2: "length nuevos = length (filter (\<lambda>b. cls b \<in> set ids) bs)" and
      n3: "\<forall>d \<in> set nuevos. de_caja names bs d"
      by (elim exE conjE)
    have r: "revisar_boxes ids names (box # bs) objs = Inr (objs @ (?d # nuevos))"
      using True na n1 by simp
    have d: "de_caja names (box # bs) ?d"
      using na by (simp add: de_caja_def)
    have "\<forall>d \<in> set (?d # nuevos). de_caja names (box # bs) d"
      using d n3 de_caja_mono [of names bs _ "box # bs"] by auto
    moreover have "length (?d # nuevos) = length (filter (\<lambda>b. cls b \<in> set ids) (box # bs))"
      using True n2 by simp
    ultimately show ?thesis using r by blast
  next
    case False
    from Cons.IH [of objs] obtain nuevos where
      n1: "revisar_boxes ids names bs objs = Inr (objs @ nuevos)" and
      n2: "length nuevos = length (filter (\<lambda>b. cls b \<in> set ids) bs)" and
      n3: "\<forall>d \<in> set nuevos. de_caja names bs d"
      by (elim exE conjE)
    have r: "revisar_boxes ids names (box # bs) objs = Inr (objs @ nuevos)"
      using False n1 by simp
    have "\<forall>d \<in> set nuevos. de_caja names (box # bs) d"
      using n3 de_caja_mono [of names bs _ "box # bs"] by auto
    moreover have "length nuevos = length (filter (\<lambda>b. cls b \<in> set ids) (box # bs))"
      using False n2 by simp
    ultimately show ?thesis using r by blast
  qed
qed

lemma procesar_resultados_Inr:
  assumes "distinct (map fst names)" "clases_peligrosas_ids names = Inr ids"
  shows "\<exists>nuevos. procesar_resultados ids names rs (s, objs) =
             Inr (s\<lparr>frame_anotado := (if rs = [] then frame_anotado s else Some (plot (last rs)))\<rparr>,
                  objs @ nuevos) \<and>
           length nuevos = length (filter (\<lambda>b. cls b \<in> set ids) (concat (map boxes rs))) \<and>
           (\<forall>d \<in> set nuevos. de_caja names (concat (map boxes rs)) d)"
proof (induction rs arbitrary: s objs)
  case Nil
  show ?case by simp
next
  case (Cons r rs)
  let ?s1 = "s\<lparr>frame_anotado := Some (plot r)\<rparr>"
  from revisar_boxes_Inr [OF assms, of "boxes r" objs] obtain n1 where
    a1: "revisar_boxes ids names (boxes r) objs = Inr (objs @ n1)" and
    a2: "length n1 = length (filter (\<lambda>b. cls b \<in> set ids) (boxes r))" and
    a3: "\<forall>d \<in> set n1. de_caja names (boxes r) d"
    by (elim exE conjE)
  from Cons.IH [of ?s1 "objs @ n1"] obtain n2 where
    b1: "procesar_resultados ids names rs (?s1, objs @ n1) =
           Inr (?s1\<lparr>frame_anotado := (if rs = [] then frame_anotado ?s1 else Some (plot (last rs)))\<rparr>,
                (objs @ n1) @ n2)" and
    b2: "length n2 = length (filter (\<lambda>b. cls b \<in> set ids) (concat (map boxes rs)))" and
    b3: "\<forall>d \<in> set n2. de_caja names (concat (map boxes rs)) d"
    by (elim exE conjE)
  have r: "procesar_resultados ids names (r # rs) (s, objs) =
             Inr (s\<lparr>frame_anotado := (if r # rs = [] then frame_anotado s else Some (plot (last (r # rs))))\<rparr>,
                  objs @ (n1 @ n2))"
    using a1 b1 by simp
  have l: "length (n1 @ n2) = length (filter (\<lambda>b. cls b \<in> set ids) (concat (map boxes (r # rs))))"
    using a2 b2 by simp
  have "\<forall>d \<in> set (n1 @ n2). de_caja names (concat (map boxes (r # rs))) d"
    using a3 b3 de_caja_mono [of names "boxes r" _ "concat (map boxes (r # rs))"]
      de_caja_mono [of names "concat (map boxes rs)" _ "concat (map boxes (r # rs))"]
    by auto
  with r l show ?case by blast
qed

text \<open>
  C1. Every detection appended to the per-frame list has a class name that is a key of
  the danger-label mapping, and a confidence of at least 0.3, the threshold the script
  hands to the detector. The scan of the results never raises. The script itself copies
  the confidence of the box and does not compare it: the bound is the detector's, which
  returns only boxes that reach the threshold it is given (the third hypothesis).
\<close>

theorem detections_labelled_and_confident:
  assumes "distinct (map fst names)" "clases_peligrosas_ids names = Inr ids"
    and "\<forall>c. \<forall>r \<in> set (predict e c). \<forall>b \<in> set (boxes r). c \<le> conf b"
  shows "\<exists>s' objetos_detectados.
           procesar_resultados ids names (predict e conf_umbral) (s, []) =
             Inr (s', objetos_detectados) \<and>
           (\<forall>d \<in> set objetos_detectados.
              nombre d \<in> set (keys OBJETOS_PELIGROSOS) \<and> 3 / 10 \<le> confianza d)"
proof -
  let ?rs = "predict e conf_umbral"
  from procesar_resultados_Inr [OF assms(1,2), of ?rs s "[]"] obtain nuevos s' where
    p: "procesar_resultados ids names ?rs (s, []) = Inr (s', [] @ nuevos)" and
    d: "\<forall>d \<in> set nuevos. de_caja names (concat (map boxes ?rs)) d"
    by (elim exE conjE)
  have "nombre d \<in> set (keys OBJETOS_PELIGROSOS) \<and> 3 / 10 \<le> confianza d"
    if "d \<in> set nuevos" for d
  proof -
    from d that have dc: "de_caja names (concat (map boxes ?rs)) d" by (rule bspec)
    then obtain b where b: "b \<in> set (concat (map boxes ?rs))" "confianza d = conf b"
      unfolding de_caja_def by blast
    from b(1) obtain r where r: "r \<in> set ?rs" "b \<in> set (boxes r)" by auto
    from assms(3) r have "conf_umbral \<le> conf b" by blast
    with b(2) have "3 / 10 \<le> confianza d" by (simp add: conf_umbral_def)
    moreover from dc have "nombre d \<in> set (keys OBJETOS_PELIGROSOS)"
      unfolding de_caja_def by (rule conjunct1)
    ultimately show ?thesis by (rule conjI [rotated])
  qed
  with p show ?thesis by auto
qed

lemma names_demo_distinct: "distinct (map fst names_demo)"
  by (simp add: names_demo_def)

lemma names_demo_ids: "clases_peligrosas_ids names_demo = Inr [39, 43]"
  by (simp add: names_demo_def clases_peligrosas_ids_def keys_def getitem_def OBJETOS_PELIGROSOS_def)

lemma predict_demo_umbral:
  "predict_demo conf_umbral =
     [\<lparr>boxes = [\<lparr>cls = 43, conf = 8 / 10, xyxy = (10, 20, 110, 220)\<rparr>,
                \<lparr>cls = 0, conf = 9 / 10, xyxy = (300, 40, 500, 700)\<rparr>,
                \<lparr>cls = 39, conf = 4 / 10, xyxy = (700, 300, 740, 400)\<rparr>],
       plot = plot_demo\<rparr>]"
  by (simp add: predict_demo_def conf_umbral_def cajas_demo_def)

lemma procesar_demo:
  "procesar_resultados [39, 43] names_demo (predict_demo conf_umbral) (s, []) =
     Inr (s\<lparr>frame_anotado := Some plot_demo\<rparr>, [cuchillo_demo, botella_demo])"
  by (simp add: predict_demo_umbral names_demo_def getitem_def OBJETOS_PELIGROSOS_def
      cuchillo_demo_def botella_demo_def)

theorem detections_labelled_and_confident_witness:
  "distinct (map fst names_demo) \<and>
   clases_peligrosas_ids names_demo = Inr [39, 43] \<and>
   procesar_resultados [39, 43] names_demo (predict (cuadro_demo 255) conf_umbral)
     (estado_inicial 0, []) =
     Inr ((estado_inicial 0)\<lparr>frame_anotado := Some plot_demo\<rparr>, [cuchillo_demo, botella_demo]) \<and>
   (\<exists>s' objetos_detectados.
      procesar_resultados [39, 43] names_demo (predict (cuadro_demo 255) conf_umbral)
        (estado_inicial 0, []) = Inr (s', objetos_detectados) \<and>
      (\<forall>d \<in> set objetos_detectados.
         nombre d \<in> set (keys OBJETOS_PELIGROSOS) \<and> 3 / 10 \<le> confianza d))"
proof -
  have h3: "\<forall>c. \<forall>r \<in> set (predict (cuadro_demo 255) c). \<forall>b \<in> set (boxes r). c \<le> conf b"
    by (simp add: cuadro_demo_def predict_demo_def)
  note t = detections_labelled_and_confident
    [OF names_demo_distinct names_demo_ids h3, of "estado_inicial 0"]
  have p: "predict (cuadro_demo 255) = predict_demo"
    by (simp add: cuadro_demo_def)
  have v: "procesar_resultados [39, 43] names_demo (predict (cuadro_demo 255) conf_umbral)
     (estado_inicial 0, []) =
     Inr ((estado_inicial 0)\<lparr>frame_anotado := Some plot_demo\<rparr>, [cuchillo_demo, botella_demo])"
    unfolding p by (rule procesar_demo)
  show ?thesis
    by (rule conjI [OF names_demo_distinct conjI [OF names_demo_ids conjI [OF v t]]])
qed


subsection \<open>The event log\<close>

lemma ord_q: "ord (CHR ''q'') = 113"
  by (simp add: ord_def)

lemma ord_s: "ord (CHR ''s'') = 115"
  by (simp add: ord_def)

lemma ord_r: "ord (CHR ''r'') = 114"
  by (simp add: ord_def)

lemma length_ultimos: "length (ultimos n xs) = min n (length xs)"
  by (simp add: ultimos_def)

lemma ultimos_suffix: "take (length xs - n) xs @ ultimos n xs = xs"
  by (simp add: ultimos_def)

lemma ultimos_append_long: "n \<le> length ys \<Longrightarrow> ultimos n (xs @ ys) = ultimos n ys"
  by (simp add: ultimos_def)

text \<open>
  C3. A formatted event line is appended to the event log if and only if the same string
  is not among the last 5 recorded entries (otherwise nothing changes); a duplicate whose
  earlier occurrence is followed by 5 or more entries, none of them equal to it, is
  recorded again.
\<close>

theorem registrar_dedup:
  "((log_eventos (registrar evento s) = log_eventos s @ [evento]) \<longleftrightarrow>
      evento \<notin> set (ultimos 5 (log_eventos s))) \<and>
   (evento \<in> set (ultimos 5 (log_eventos s)) \<longrightarrow> registrar evento s = s) \<and>
   (log_eventos s = pre @ evento # suf \<and> 5 \<le> length suf \<and> evento \<notin> set suf \<longrightarrow>
      log_eventos (registrar evento s) = pre @ evento # suf @ [evento])"
proof (intro conjI impI)
  show "(log_eventos (registrar evento s) = log_eventos s @ [evento]) \<longleftrightarrow>
      evento \<notin> set (ultimos 5 (log_eventos s))"
    by (simp add: registrar_def print_def)
next
  assume "evento \<in> set (ultimos 5 (log_eventos s))"
  then show "registrar evento s = s" by (simp add: registrar_def)
next
  assume a: "log_eventos s = pre @ evento # suf \<and> 5 \<le> length suf \<and> evento \<notin> set suf"
  then have "ultimos 5 (log_eventos s) = ultimos 5 suf"
    using ultimos_append_long [of 5 suf "pre @ [evento]"] by simp
  moreover have "set (ultimos 5 suf) \<subseteq> set suf"
    by (simp add: ultimos_def set_drop_subset)
  ultimately have "evento \<notin> set (ultimos 5 (log_eventos s))" using a by auto
  with a show "log_eventos (registrar evento s) = pre @ evento # suf @ [evento]"
    by (simp add: registrar_def print_def)
qed

theorem registrar_dedup_witness:
  "log_eventos (registrar ''x''
      ((estado_inicial 0)\<lparr>log_eventos := [''x'', ''a'', ''b'', ''c'', ''d'', ''e'']\<rparr>))
     = [''x'', ''a'', ''b'', ''c'', ''d'', ''e'', ''x''] \<and>
   registrar ''a'' ((estado_inicial 0)\<lparr>log_eventos := [''x'', ''a'', ''b'', ''c'', ''d'', ''e'']\<rparr>)
     = (estado_inicial 0)\<lparr>log_eventos := [''x'', ''a'', ''b'', ''c'', ''d'', ''e'']\<rparr>"
proof -
  let ?s = "(estado_inicial 0)\<lparr>log_eventos := [''x'', ''a'', ''b'', ''c'', ''d'', ''e'']\<rparr>"
  have h1: "log_eventos ?s = [] @ ''x'' # [''a'', ''b'', ''c'', ''d'', ''e''] \<and>
            5 \<le> length [''a'', ''b'', ''c'', ''d'', ''e''] \<and>
            ''x'' \<notin> set [''a'', ''b'', ''c'', ''d'', ''e'']"
    by simp
  have h2: "''a'' \<in> set (ultimos 5 (log_eventos ?s))"
    by (simp add: ultimos_def)
  note t = registrar_dedup [of "''x''" ?s "[]" "[''a'', ''b'', ''c'', ''d'', ''e'']"]
  note u = registrar_dedup [of "''a''" ?s "[]" "[]"]
  have c1: "log_eventos (registrar ''x'' ?s) = [] @ ''x'' # [''a'', ''b'', ''c'', ''d'', ''e''] @ [''x'']"
    by (rule t [THEN conjunct2, THEN conjunct2, THEN mp, OF h1])
  have c2: "registrar ''a'' ?s = ?s"
    by (rule u [THEN conjunct2, THEN conjunct1, THEN mp, OF h2])
  from c1 c2 show ?thesis by simp
qed

subsection \<open>The reset key\<close>

text \<open>
  C4. When the key read is \<open>r\<close>, the loop goes on with the cumulative alert counter at 0
  and the whole event log empty, whatever they held before.
\<close>

theorem reset_clears:
  assumes "key AND 0xFF = ord (CHR ''r'')"
  shows "\<exists>s'. controles (key AND 0xFF) t s = Continua s' \<and>
           alertas_totales s' = 0 \<and> log_eventos s' = []"
  using assms by (simp add: controles_def ord_q ord_s ord_r print_def)

theorem reset_clears_witness:
  "(370::int) AND 0xFF = ord (CHR ''r'') \<and>
   (\<exists>s'. controles (370 AND 0xFF)
            \<lparr>year = 2024, month = 5, day = 1, hour = 12, minute = 0, second = 1\<rparr>
            ((estado_inicial 0)\<lparr>alertas_totales := 9,
               log_eventos := [''a'', ''b'', ''c'', ''d'', ''e'', ''f'', ''g'']\<rparr>) = Continua s' \<and>
         alertas_totales s' = 0 \<and> log_eventos s' = [])"
proof -
  have k: "(370::int) AND 0xFF = ord (CHR ''r'')"
    by (simp add: ord_r)
  from k reset_clears [OF k] show ?thesis by (rule conjI)
qed


subsection \<open>Overlay of a frame\<close>

lemma fmt_pct_demo: "fmt_pct (8 / 10) = ''80%''" "fmt_pct (4 / 10) = ''40%''"
  "fmt_pct (1 / 8) = ''12%''" "fmt_pct (3 / 8) = ''38%''" "fmt_pct (456 / 1000) = ''46%''"
  by code_simp+



lemma texto_banner_2: "texto_banner 2 = ''ALERTA: 2 OBJETO(S) PELIGROSO(S) DETECTADO(S)''"
  by code_simp

lemma evento_demo:
  "evento_de (now_demo 0) cuchillo_demo =
     ''[12:00:00] '' @ [CHR 0xF0, CHR 0x9F, CHR 0x94, CHR 0xAA] @ '' CUCHILLO - Confianza: 80%''"
  "evento_de (now_demo 1) botella_demo =
     ''[12:00:01] '' @ [CHR 0xF0, CHR 0x9F, CHR 0x8D, CHR 0xBE] @ '' BOTELLA - Confianza: 40%''"
  by code_simp+




subsection \<open>The statements of an iteration\<close>

text \<open>
  Running the statements of an iteration to the end is the iteration: phase by phase, the
  statement lists compute what the functions of the loop body compute.
\<close>

lemma correr_append:
  "correr (fs @ gs) s =
     (case correr fs s of
        Continua s' \<Rightarrow> correr gs s'
      | Sale m s' \<Rightarrow> Sale m s')"
  by (induction fs arbitrary: s) (simp_all split: paso.splits)

lemma correr_fps:
  "correr (sent_fps tt) s =
     (case calcular_fps tt s of
        Inl (err, s') \<Rightarrow> Sale (Excepcion err) s'
      | Inr s' \<Rightarrow> Continua s')"
  by (simp add: sent_fps_def seguir_def calcular_fps_def Let_def)

lemma correr_resultados:
  "correr (sent_resultados ids names rs objs) s =
     (case procesar_resultados ids names rs (s, objs) of
        Inl (err, s') \<Rightarrow> Sale (Excepcion err) s'
      | Inr (s', objs') \<Rightarrow> Continua s')"
proof (induction rs arbitrary: s objs)
  case Nil
  show ?case by simp
next
  case (Cons r rs)
  show ?case
  proof (cases "revisar_boxes ids names (boxes r) objs")
    case (Inl err)
    then show ?thesis by (simp add: seguir_def lanzar_def Let_def)
  next
    case (Inr o1)
    with Cons.IH [of o1 "s\<lparr>frame_anotado := Some (plot r)\<rparr>"] show ?thesis
      by (simp add: seguir_def Let_def)
  qed
qed

lemma procesar_resultados_detectados:
  "procesar_resultados ids names rs (s, objs) = Inr (s', objs') \<Longrightarrow>
     objs' = detectados ids names rs objs"
proof (induction rs arbitrary: s objs)
  case Nil
  then show ?case by simp
next
  case (Cons r rs)
  from Cons.prems obtain o1 where
    o1: "revisar_boxes ids names (boxes r) objs = Inr o1"
        "procesar_resultados ids names rs (s\<lparr>frame_anotado := Some (plot r)\<rparr>, o1) = Inr (s', objs')"
    by (auto simp: Let_def split: sum.splits)
  from Cons.IH [OF o1(2)] o1(1) show ?case by simp
qed

lemma registrar_frame_update:
  "registrar ev (s\<lparr>frame_anotado := x\<rparr>) = (registrar ev s)\<lparr>frame_anotado := x\<rparr>"
  by (simp add: registrar_def print_def)

lemma listar_objetos_frame_update:
  "listar_objetos tw ahora objs k y img (s\<lparr>frame_anotado := x\<rparr>) =
     (case listar_objetos tw ahora objs k y img s of
        (img', s') \<Rightarrow> (img', s'\<lparr>frame_anotado := x\<rparr>))"
proof (induction objs arbitrary: k y img s)
  case Nil
  show ?case by simp
next
  case (Cons obj objs)
  show ?case
    by (simp add: Let_def registrar_frame_update Cons.IH)
qed

lemma correr_objetos:
  "frame_anotado s = Some img \<Longrightarrow>
   correr (sent_objetos tw ahora objs k y) s =
     (case listar_objetos tw ahora objs k y img s of
        (img', s') \<Rightarrow> Continua (s'\<lparr>frame_anotado := Some img'\<rparr>))"
proof (induction objs arbitrary: k y img s)
  case Nil
  then show ?case by simp
next
  case (Cons obj objs)
  let ?img2 = "dibujar (PutText (texto_chip obj) (50, y) FONT_HERSHEY_SIMPLEX (8 / 10)
                          (255, 255, 255) 2)
                 (dibujar (Rectangle (40, y - 30) (40 + tw (texto_chip obj) + 20, y + 10)
                            (0, 100, 255) (- 1)) img)"
  let ?s4 = "(registrar (evento_de (ahora k) obj) s)\<lparr>frame_anotado := Some ?img2\<rparr>"
  have f: "frame_anotado ?s4 = Some ?img2" by simp
  have c: "correr (sent_objetos tw ahora (obj # objs) k y) s =
             correr (sent_objetos tw ahora objs (Suc k) (y + 50)) ?s4"
    using Cons.prems
    apply (simp add: dibujar_en_def seguir_def registrar_def print_def alarma_def)
    apply (intro impI arg_cong [where f = "correr (sent_objetos tw ahora objs (Suc k) (y + 50))"])
    apply simp
    done
  obtain img' s' where
    l: "listar_objetos tw ahora objs (Suc k) (y + 50) ?img2 (registrar (evento_de (ahora k) obj) s)
          = (img', s')"
    by (cases "listar_objetos tw ahora objs (Suc k) (y + 50) ?img2
                 (registrar (evento_de (ahora k) obj) s)")
  from Cons.IH [OF f] l have
    "correr (sent_objetos tw ahora objs (Suc k) (y + 50)) ?s4 =
       Continua (s'\<lparr>frame_anotado := Some img'\<rparr>)"
    by (simp add: listar_objetos_frame_update)
  with c l show ?case by (simp add: Let_def)
qed

lemma correr_alertar:
  "correr (sent_alertar tw ahora objs) s =
     (case alertar tw ahora objs s of
        Inl (err, s') \<Rightarrow> Sale (Excepcion err) s'
      | Inr s' \<Rightarrow> Continua s')"
proof (cases "objs = []")
  case True
  then show ?thesis by (simp add: sent_alertar_def alertar_def)
next
  case False
  let ?s1 = "s\<lparr>alertas_totales := alertas_totales s + int (length objs)\<rparr>"
  show ?thesis
  proof (cases "frame_anotado s")
    case None
    with False show ?thesis
      by (simp add: sent_alertar_def alertar_def seguir_def dibujar_en_def Let_def)
  next
    case (Some img)
    let ?img2 = "dibujar (PutText (texto_banner (length objs)) (50, 60)
                            FONT_HERSHEY_DUPLEX (9 / 10) (255, 255, 255) 2)
                   (dibujar (Rectangle (40, 20) (1240, 80) (0, 0, 255) (- 1)) img)"
    have f: "frame_anotado (?s1\<lparr>frame_anotado := Some ?img2\<rparr>) = Some ?img2" by simp
    obtain img3 s2 where l: "listar_objetos tw ahora objs 0 120 ?img2 ?s1 = (img3, s2)"
      by (cases "listar_objetos tw ahora objs 0 120 ?img2 ?s1")
    have "correr (sent_alertar tw ahora objs) s =
            correr (sent_objetos tw ahora objs 0 120) (?s1\<lparr>frame_anotado := Some ?img2\<rparr>)"
      using False Some by (simp add: sent_alertar_def seguir_def dibujar_en_def)
    also have "\<dots> = Continua (s2\<lparr>frame_anotado := Some img3\<rparr>)"
      using l by (simp add: correr_objetos [OF f] listar_objetos_frame_update)
    finally show ?thesis
      using False Some l by (simp add: alertar_def Let_def)
  qed
qed

lemma correr_informar:
  "correr (sent_informar objs) s =
     (case informar objs s of
        Inl (err, s') \<Rightarrow> Sale (Excepcion err) s'
      | Inr s' \<Rightarrow> Continua s')"
  by (cases "frame_anotado s")
     (simp_all add: sent_informar_def informar_def dibujar_en_def dibujar_def Let_def)

lemma correr_controles: "correr (sent_controles key t) s = controles key t s"
  by (cases "frame_anotado s")
     (simp_all add: sent_controles_def controles_def seguir_def romper_def print_def Let_def
        deteniendo_def captura_guardada_def reseteado_def)

lemma correr_cuerpo:
  "correr (cuerpo ids names tw e) s =
     (case anotar ids names e s of
        Inl (err, s') \<Rightarrow> Sale (Excepcion err) s'
      | Inr (s1, objetos_detectados) \<Rightarrow>
          (case superponer tw (now e) objetos_detectados s1 of
             Inl (err, s') \<Rightarrow> Sale (Excepcion err) s'
           | Inr s2 \<Rightarrow> Continua s2))"
proof (cases "calcular_fps (time_time e) s")
  case (Inl x)
  then show ?thesis
    by (cases x) (simp add: cuerpo_def correr_append correr_fps anotar_def)
next
  case (Inr s0)
  show ?thesis
  proof (cases "procesar_resultados ids names (predict e conf_umbral) (s0, [])")
    case (Inl x)
    with Inr show ?thesis
      by (cases x) (simp add: cuerpo_def correr_append correr_fps correr_resultados anotar_def)
  next
    case r: (Inr y)
    obtain s1 objs where y: "y = (s1, objs)" by (cases y)
    from procesar_resultados_detectados r y
    have d: "detectados ids names (predict e conf_umbral) [] = objs" by simp
    show ?thesis
      using Inr r y d
      by (simp add: cuerpo_def correr_append correr_fps correr_resultados anotar_def
          correr_alertar correr_informar superponer_def split: sum.splits prod.splits)
  qed
qed

lemma anotar_detectados:
  "anotar ids names e s = Inr (s1, objs) \<Longrightarrow>
     objs = detectados ids names (predict e conf_umbral) []"
  by (auto simp: anotar_def split: sum.splits dest: procesar_resultados_detectados)

lemma correr_sentencias: "correr (sentencias ids names tw e) s = iteracion ids names tw e s"
proof (cases "ret e")
  case False
  then show ?thesis
    by (simp add: sentencias_def iteracion_def seguir_def romper_def error_captura_def)
next
  case True
  then show ?thesis
    by (auto simp: sentencias_def iteracion_def correr_append correr_cuerpo correr_controles
        split: sum.splits prod.splits dest: anotar_detectados)
qed


end
